theory Spec2Isabelle
  imports Main
begin

section \<open>Python values and their text form\<close>

text \<open>
  The values that \<^verbatim>\<open>json.loads\<close> produces and that the prompt template formats:
  \<^verbatim>\<open>None\<close>, booleans, integers, strings, lists and dictionaries (in insertion order,
  keys distinct). A \<open>char\<close> is a code point below 256. Floats are left out.
\<close>

datatype pyval =
    PNone
  | PBool bool
  | PInt int
  | PStr string
  | PList "pyval list"
  | PDict "(string \<times> pyval) list"

definition NL :: string where
  "NL = [CHR 0x0A]"

text \<open>\<^verbatim>\<open>sep.join(xs)\<close>\<close>

fun str_join :: "string \<Rightarrow> string list \<Rightarrow> string" where
  "str_join sep [] = []"
| "str_join sep [x] = x"
| "str_join sep (x # y # ys) = x @ sep @ str_join sep (y # ys)"

text \<open>\<^verbatim>\<open>str(n)\<close> for an integer: decimal digits, a minus sign when negative.\<close>

fun digits :: "nat \<Rightarrow> string" where
  "digits n =
     (if n < 10 then [''0123456789'' ! n]
      else digits (n div 10) @ [''0123456789'' ! (n mod 10)])"

definition str_int :: "int \<Rightarrow> string" where
  "str_int i = (if i < 0 then ''-'' @ digits (nat (- i)) else digits (nat i))"

text \<open>
  \<^verbatim>\<open>repr(s)\<close> for a string: single quotes unless the string holds a single quote and
  no double quote; the quote and the backslash are escaped, tab, newline and carriage
  return are written \<^verbatim>\<open>\t \n \r\<close>, every other non-printable code point as
  \<^verbatim>\<open>\xhh\<close>.
\<close>

definition quote_of :: "string \<Rightarrow> char" where
  "quote_of s = (if CHR 0x27 \<in> set s \<and> CHR 0x22 \<notin> set s then CHR 0x22 else CHR 0x27)"

definition hex2 :: "nat \<Rightarrow> string" where
  "hex2 n = [''0123456789abcdef'' ! (n div 16), ''0123456789abcdef'' ! (n mod 16)]"

definition isprintable :: "char \<Rightarrow> bool" where
  "isprintable c =
     (let n = (of_char c :: nat)
      in (0x20 \<le> n \<and> n < 0x7F) \<or> (0xA1 \<le> n \<and> n \<noteq> 0xAD))"

definition repr_char :: "char \<Rightarrow> char \<Rightarrow> string" where
  "repr_char q c =
     (if c = q \<or> c = CHR 0x5C then [CHR 0x5C, c]
      else if c = CHR 0x09 then [CHR 0x5C, CHR ''t'']
      else if c = CHR 0x0A then [CHR 0x5C, CHR ''n'']
      else if c = CHR 0x0D then [CHR 0x5C, CHR ''r'']
      else if \<not> isprintable c then [CHR 0x5C, CHR ''x''] @ hex2 (of_char c)
      else [c])"

definition repr_str :: "string \<Rightarrow> string" where
  "repr_str s = (let q = quote_of s in [q] @ concat (map (repr_char q) s) @ [q])"

text \<open>\<^verbatim>\<open>repr(v)\<close> and \<^verbatim>\<open>str(v)\<close>; they differ on strings only.\<close>

fun py_repr :: "pyval \<Rightarrow> string" where
  "py_repr PNone = ''None''"
| "py_repr (PBool b) = (if b then ''True'' else ''False'')"
| "py_repr (PInt i) = str_int i"
| "py_repr (PStr s) = repr_str s"
| "py_repr (PList xs) = ''['' @ str_join '', '' (map py_repr xs) @ '']''"
| "py_repr (PDict kvs) =
     ''{'' @ str_join '', '' (map (\<lambda>(k, v). repr_str k @ '': '' @ py_repr v) kvs) @ ''}''"

definition py_str :: "pyval \<Rightarrow> string" where
  "py_str v = (case v of PStr s \<Rightarrow> s | _ \<Rightarrow> py_repr v)"

text \<open>The name of a value's type, as it appears in an \<^verbatim>\<open>AttributeError\<close>.\<close>

definition type_name :: "pyval \<Rightarrow> string" where
  "type_name v =
     (case v of PNone \<Rightarrow> ''NoneType'' | PBool _ \<Rightarrow> ''bool'' | PInt _ \<Rightarrow> ''int''
      | PStr _ \<Rightarrow> ''str'' | PList _ \<Rightarrow> ''list'' | PDict _ \<Rightarrow> ''dict'')"

text \<open>\<^verbatim>\<open>d.get(k)\<close> is \<open>map_of d k\<close>; \<^verbatim>\<open>d.get(k, default)\<close>:\<close>

definition dict_get :: "(string \<times> 'v) list \<Rightarrow> string \<Rightarrow> 'v \<Rightarrow> 'v" where
  "dict_get d k dflt = (case map_of d k of Some v \<Rightarrow> v | None \<Rightarrow> dflt)"

section \<open>Exceptions\<close>

text \<open>
  An exception is an instance of a subclass of \<^verbatim>\<open>Exception\<close>: its class and the
  text \<^verbatim>\<open>str(e)\<close>.
\<close>

datatype exn_class =
    FileNotFoundError
  | OSError
  | ValueError
  | JSONDecodeError
  | AttributeError
  | TypeError
  | KeyError
  | OtherError string

datatype exn = Exn (class_of: exn_class) (str_of: string)

section \<open>Documents\<close>

text \<open>
  \<^verbatim>\<open>langchain_core.documents.Document\<close>: the text and a metadata dictionary. The
  loader stores JSON values in the metadata; the pipeline reads string values
  (\<^verbatim>\<open>Dict[str, str]\<close>).
\<close>

record 'v document =
  page_content :: string
  metadata :: "(string \<times> 'v) list"

section \<open>src/core/rag\_pipeline.py\<close>

datatype piece = Text string | Field string

text \<open>
  \<^verbatim>\<open>RAG_PROMPT_TEMPLATE\<close>, as \<^verbatim>\<open>ChatPromptTemplate.from_template\<close> reads it: literal
  text and the three replacement fields.
\<close>

definition RAG_PROMPT_TEMPLATE :: "piece list" where
  \<open>RAG_PROMPT_TEMPLATE =
    [Text (NL
       @ ''As a helpful informational assistant, your task is to answer the user's question'' @ NL
       @ ''based exclusively on the provided context. Be concise and factual.'' @ NL
       @ NL
       @ ''If the context does not contain the answer, you must reply with:'' @ NL
       @ ''"Unfortunately, I could not find information on this topic in my knowledge base."'' @ NL
       @ NL
       @ ''Your final answer must be in the following language: ''),
     Field ''language'',
     Text (NL @ NL @ ''Context:'' @ NL),
     Field ''context'',
     Text (NL @ NL @ ''Question:'' @ NL),
     Field ''question'',
     Text NL]\<close>

text \<open>
  Formatting the template with a dictionary of variables: each field is replaced by
  \<^verbatim>\<open>str\<close> of its value; a missing variable is a \<^verbatim>\<open>KeyError\<close>.
\<close>

fun prompt_format :: "piece list \<Rightarrow> (string \<times> pyval) list \<Rightarrow> exn + string" where
  "prompt_format [] kw = Inr []"
| "prompt_format (Text t # ps) kw =
     (case prompt_format ps kw of Inl e \<Rightarrow> Inl e | Inr r \<Rightarrow> Inr (t @ r))"
| "prompt_format (Field n # ps) kw =
     (case map_of kw n of
        None \<Rightarrow> Inl (Exn KeyError (repr_str n))
      | Some v \<Rightarrow> (case prompt_format ps kw of Inl e \<Rightarrow> Inl e | Inr r \<Rightarrow> Inr (py_str v @ r)))"

text \<open>
  The two external services of the pipeline: the retriever (vector store, fixed
  \<^verbatim>\<open>top_k\<close>) and the language model followed by \<^verbatim>\<open>StrOutputParser\<close>. Each call may
  raise, and reads and changes the state \<open>'w\<close> of the outside world.
\<close>

record 'w services =
  retriever :: "string \<Rightarrow> 'w \<Rightarrow> (exn + string document list) \<times> 'w"
  llm :: "string \<Rightarrow> 'w \<Rightarrow> (exn + string) \<times> 'w"

text \<open>The state threaded through a request: the outside world and the calls made so far.\<close>

datatype call = Retrieve string | Generate string

record 'w state =
  world :: 'w
  calls :: "call list"

definition retriever_invoke ::
  "'w services \<Rightarrow> string \<Rightarrow> 'w state \<Rightarrow> (exn + string document list) \<times> 'w state" where
  "retriever_invoke sv query s =
     (case retriever sv query (world s) of
        (r, w) \<Rightarrow> (r, \<lparr>world = w, calls = calls s @ [Retrieve query]\<rparr>))"

definition llm_invoke ::
  "'w services \<Rightarrow> string \<Rightarrow> 'w state \<Rightarrow> (exn + string) \<times> 'w state" where
  "llm_invoke sv prompt s =
     (case llm sv prompt (world s) of
        (r, w) \<Rightarrow> (r, \<lparr>world = w, calls = calls s @ [Generate prompt]\<rparr>))"

text \<open>\<^verbatim>\<open>RAGPipeline._format_context\<close>\<close>

definition format_context :: "'v document list \<Rightarrow> string" where
  "format_context docs = str_join (NL @ NL @ ''---'' @ NL @ NL) (map page_content docs)"

text \<open>
  \<^verbatim>\<open>RAGPipeline._format_sources\<close>: the loop, with its two accumulators. A string is
  truthy when it is not empty; \<^verbatim>\<open>metadata.get("source")\<close> is \<^verbatim>\<open>None\<close> (falsy) when
  the key is missing.
\<close>

record source =
  url :: string
  title :: string

fun format_sources_loop ::
  "string document list \<Rightarrow> source list \<Rightarrow> string set \<Rightarrow> source list" where
  "format_sources_loop [] sources unique_urls = sources"
| "format_sources_loop (doc # docs) sources unique_urls =
     (case map_of (metadata doc) ''source'' of
        None \<Rightarrow> format_sources_loop docs sources unique_urls
      | Some source_url \<Rightarrow>
          if source_url \<noteq> [] \<and> source_url \<notin> unique_urls
          then format_sources_loop docs
                 (sources @ [\<lparr>url = source_url,
                              title = dict_get (metadata doc) ''title'' ''No Title''\<rparr>])
                 (insert source_url unique_urls)
          else format_sources_loop docs sources unique_urls)"

definition format_sources :: "string document list \<Rightarrow> source list" where
  "format_sources docs = format_sources_loop docs [] {}"

text \<open>
  The chain built in \<^verbatim>\<open>RAGPipeline.__init__\<close>.
  \<^verbatim>\<open>retrieval_chain = itemgetter("question") | self.retriever | self._format_context\<close>
\<close>

definition retrieval_chain ::
  "'w services \<Rightarrow> (string \<times> string) list \<Rightarrow> 'w state \<Rightarrow> (exn + string) \<times> 'w state" where
  "retrieval_chain sv input_data s =
     (case map_of input_data ''question'' of
        None \<Rightarrow> (Inl (Exn KeyError (repr_str ''question'')), s)
      | Some q \<Rightarrow>
          (case retriever_invoke sv q s of
             (Inl e, s') \<Rightarrow> (Inl e, s')
           | (Inr docs, s') \<Rightarrow> (Inr (format_context docs), s')))"

text \<open>
  \<^verbatim>\<open>RunnableParallel(context=retrieval_chain, question=RunnablePassthrough(),
  language=RunnablePassthrough())\<close>: a \<^verbatim>\<open>RunnablePassthrough\<close> returns its input, and
  the input of every branch is the whole input dictionary.
\<close>

definition as_pyval :: "(string \<times> string) list \<Rightarrow> pyval" where
  "as_pyval d = PDict (map (\<lambda>(k, v). (k, PStr v)) d)"

definition parallel ::
  "'w services \<Rightarrow> (string \<times> string) list \<Rightarrow> 'w state
     \<Rightarrow> (exn + (string \<times> pyval) list) \<times> 'w state" where
  "parallel sv input_data s =
     (case retrieval_chain sv input_data s of
        (Inl e, s') \<Rightarrow> (Inl e, s')
      | (Inr context, s') \<Rightarrow>
          (Inr [(''context'', PStr context),
                (''question'', as_pyval input_data),
                (''language'', as_pyval input_data)], s'))"

text \<open>\<^verbatim>\<open>self.chain = RunnableParallel(...) | self.prompt | self.llm | StrOutputParser()\<close>\<close>

definition chain_invoke ::
  "'w services \<Rightarrow> (string \<times> string) list \<Rightarrow> 'w state \<Rightarrow> (exn + string) \<times> 'w state" where
  "chain_invoke sv input_data s =
     (case parallel sv input_data s of
        (Inl e, s') \<Rightarrow> (Inl e, s')
      | (Inr vars, s') \<Rightarrow>
          (case prompt_format RAG_PROMPT_TEMPLATE vars of
             Inl e \<Rightarrow> (Inl e, s')
           | Inr prompt \<Rightarrow> llm_invoke sv prompt s'))"

text \<open>
  \<^verbatim>\<open>RAGPipeline.answer\<close>; the returned dictionary has the keys answer and sources.
  The language is \<open>Polish\<close> when the caller leaves it out; \<^verbatim>\<open>ask\<close> always
  passes it.
\<close>

record answer_result =
  res_answer :: string
  res_sources :: "source list"

definition answer ::
  "'w services \<Rightarrow> string \<Rightarrow> string \<Rightarrow> 'w state \<Rightarrow> (exn + answer_result) \<times> 'w state" where
  "answer sv question language s =
     (case retriever_invoke sv question s of
        (Inl e, s1) \<Rightarrow> (Inl e, s1)
      | (Inr relevant_docs, s1) \<Rightarrow>
          if relevant_docs = []
          then (Inr \<lparr>res_answer =
                       ''Unfortunately, I could not find any relevant information ''
                       @ ''in my knowledge base.'',
                     res_sources = []\<rparr>, s1)
          else
            (let input_data = [(''question'', question), (''language'', language)]
             in case chain_invoke sv input_data s1 of
                  (Inl e, s2) \<Rightarrow> (Inl e, s2)
                | (Inr generated_answer, s2) \<Rightarrow>
                    (Inr \<lparr>res_answer = generated_answer,
                          res_sources = format_sources relevant_docs\<rparr>, s2)))"

section \<open>src/api/endpoints.py\<close>

text \<open>
  \<^verbatim>\<open>AskRequest\<close>, \<^verbatim>\<open>AskResponse\<close> and \<^verbatim>\<open>HTTPException\<close>. The handler \<^verbatim>\<open>ask\<close>
  returns the response or raises the HTTP exception.
\<close>

record ask_request =
  req_question :: string
  req_language :: string

record ask_response =
  resp_answer :: string
  resp_sources :: "source list"

datatype http_exception = HTTPException (status_code: nat) (detail: string)

definition ask ::
  "'w services \<Rightarrow> ask_request \<Rightarrow> 'w state \<Rightarrow> (http_exception + ask_response) \<times> 'w state" where
  "ask sv request s =
     (case answer sv (req_question request) (req_language request) s of
        (Inr result, s') \<Rightarrow>
          (Inr \<lparr>resp_answer = res_answer result, resp_sources = res_sources result\<rparr>, s')
      | (Inl e, s') \<Rightarrow>
          (Inl (HTTPException 500
                  (''An internal error occurred while processing the request: '' @ str_of e)),
           s'))"

section \<open>src/data\_processing/loader.py\<close>

datatype level = INFO | WARNING | ERROR

type_synonym log = "(level \<times> string) list"

definition SQ :: string where
  "SQ = [CHR 0x27]"

text \<open>
  \<^verbatim>\<open>itertools.islice(f, start, stop)\<close> over the lines of the file. The arguments are
  checked when the slice is built: a negative index is a \<^verbatim>\<open>ValueError\<close>. Indices
  are taken to be at most \<^verbatim>\<open>sys.maxsize\<close>.
\<close>

definition islice :: "'a list \<Rightarrow> int \<Rightarrow> int option \<Rightarrow> exn + 'a list" where
  "islice xs start stop =
     (if stop = Some (- 1)
      then Inl (Exn ValueError
        ''Stop argument for islice() must be None or an integer: 0 <= x <= sys.maxsize.'')
      else if start < 0 \<or> (case stop of None \<Rightarrow> False | Some n \<Rightarrow> n < - 1)
      then Inl (Exn ValueError
        ''Indices for islice() must be None or an integer: 0 <= x <= sys.maxsize.'')
      else Inr (case stop of
                  None \<Rightarrow> drop (nat start) xs
                | Some n \<Rightarrow> take (nat n - nat start) (drop (nat start) xs)))"

text \<open>
  The body of the inner \<^verbatim>\<open>try\<close>. \<^verbatim>\<open>json.loads\<close> is a parameter: it returns what
  the line denotes, or the message of the \<^verbatim>\<open>JSONDecodeError\<close> that it raises when
  the line is not JSON. \<^verbatim>\<open>data.get\<close> exists on a dictionary only: on any other value
  the attribute lookup raises \<^verbatim>\<open>AttributeError\<close>.
\<close>

definition prepare_line :: "(string \<Rightarrow> string + pyval) \<Rightarrow> string \<Rightarrow> exn + pyval document" where
  "prepare_line json_loads line =
     (case json_loads line of
        Inl msg \<Rightarrow> Inl (Exn JSONDecodeError msg)
      | Inr data \<Rightarrow>
          (case data of
             PDict d \<Rightarrow>
               Inr \<lparr>page_content =
                      ''Page Title: '' @ py_str (dict_get d ''title'' (PStr ''N/A'')) @ NL
                      @ ''H1 Header: '' @ py_str (dict_get d ''h1'' (PStr ''N/A'')) @ NL @ NL
                      @ py_str (dict_get d ''text'' (PStr [])),
                    metadata =
                      [(''source'', dict_get d ''url'' (PStr [])),
                       (''title'', dict_get d ''title'' (PStr ''No Title'')),
                       (''content_hash'', dict_get d ''content_hash'' (PStr []))]\<rparr>
           | _ \<Rightarrow>
               Inl (Exn AttributeError
                      (SQ @ type_name data @ SQ @ '' object has no attribute ''
                       @ SQ @ ''get'' @ SQ))))"

text \<open>
  The \<^verbatim>\<open>for\<close> loop over the sliced lines, \<open>i\<close> counting from \<open>start\<close>, with the two
  handlers of the inner \<^verbatim>\<open>try\<close>; any other exception leaves the loop.
\<close>

fun load_loop ::
  "(string \<Rightarrow> string + pyval) \<Rightarrow> string \<Rightarrow> int \<Rightarrow> string list \<Rightarrow> pyval document list \<Rightarrow> log
     \<Rightarrow> (exn + pyval document list) \<times> log" where
  "load_loop json_loads file_path i [] documents lg = (Inr documents, lg)"
| "load_loop json_loads file_path i (line # rest) documents lg =
     (case prepare_line json_loads line of
        Inr doc \<Rightarrow> load_loop json_loads file_path (i + 1) rest (documents @ [doc]) lg
      | Inl e \<Rightarrow>
          if class_of e = JSONDecodeError
          then load_loop json_loads file_path (i + 1) rest documents
                 (lg @ [(WARNING, ''Skipping malformed JSON line '' @ str_int (i + 1)
                            @ '' in '' @ SQ @ file_path @ SQ @ ''.'')])
          else if class_of e = TypeError \<or> class_of e = KeyError
          then load_loop json_loads file_path (i + 1) rest documents
                 (lg @ [(WARNING, ''Skipping line '' @ str_int (i + 1)
                            @ '' due to missing data in '' @ SQ @ file_path @ SQ
                            @ '': '' @ str_of e)])
          else (Inl e, lg))"

text \<open>
  \<^verbatim>\<open>load_and_prepare_documents\<close>. \<open>open_lines\<close> is \<^verbatim>\<open>open(file_path, 'r',
  encoding='utf-8')\<close> read line by line: the decoded lines of the file, or the exception
  that \<^verbatim>\<open>open\<close> raises. The outer handler catches \<^verbatim>\<open>FileNotFoundError\<close> from the
  whole block. In the first log record \<^verbatim>\<open>stop or 'end'\<close> prints \<open>end\<close> for
  \<^verbatim>\<open>None\<close> and for 0.
\<close>

definition load_and_prepare_documents ::
  "(string \<Rightarrow> exn + string list) \<Rightarrow> (string \<Rightarrow> string + pyval) \<Rightarrow> string \<Rightarrow> int \<Rightarrow> int option
     \<Rightarrow> log \<Rightarrow> (exn + pyval document list) \<times> log" where
  "load_and_prepare_documents open_lines json_loads file_path start stop lg0 =
     (let lg1 = lg0 @ [(INFO, ''Loading documents from '' @ SQ @ file_path @ SQ
                          @ '' [lines '' @ str_int start @ ''-''
                          @ (case stop of None \<Rightarrow> ''end''
                             | Some n \<Rightarrow> if n = 0 then ''end'' else str_int n)
                          @ '']...'')];
          block =
            (case open_lines file_path of
               Inl e \<Rightarrow> (Inl e, lg1)
             | Inr f \<Rightarrow>
                 (case islice f start stop of
                    Inl e \<Rightarrow> (Inl e, lg1)
                  | Inr file_iterator \<Rightarrow>
                      load_loop json_loads file_path start file_iterator [] lg1))
      in case block of
           (Inl e, lg2) \<Rightarrow>
             if class_of e = FileNotFoundError
             then (Inr [], lg2 @ [(ERROR, ''Data file not found at path: '' @ file_path)])
             else (Inl e, lg2)
         | (Inr documents, lg2) \<Rightarrow>
             (Inr documents,
              lg2 @ [(INFO, ''Successfully loaded and prepared ''
                        @ str_int (int (length documents)) @ '' documents.'')]))"

section \<open>Definitions for the statements\<close>

text \<open>
  The template with its three slots filled with strings: the language, the context and
  the question.
\<close>

definition filled_template :: "string \<Rightarrow> string \<Rightarrow> string \<Rightarrow> string" where
  "filled_template language context question =
     (case prompt_format RAG_PROMPT_TEMPLATE
             [(''language'', PStr language), (''context'', PStr context),
              (''question'', PStr question)] of
        Inr prompt \<Rightarrow> prompt
      | Inl _ \<Rightarrow> [])"

text \<open>
  The text of the dictionary \<^verbatim>\<open>{"question": question, "language": language}\<close>, as
  \<^verbatim>\<open>str\<close> prints it.
\<close>

definition input_text :: "string \<Rightarrow> string \<Rightarrow> string" where
  "input_text question language =
     py_str (PDict [(''question'', PStr question), (''language'', PStr language)])"

text \<open>The url that a retrieved passage bears: none when it is missing or empty.\<close>

definition bears_url :: "string document \<Rightarrow> string option" where
  "bears_url doc =
     (case map_of (metadata doc) ''source'' of
        None \<Rightarrow> None
      | Some u \<Rightarrow> if u = [] then None else Some u)"

text \<open>
  The sources without the accumulators of the loop, for the proofs: the passages are
  scanned in order and a passage is kept when it bears a url not seen before.
\<close>

fun collect :: "string set \<Rightarrow> string document list \<Rightarrow> source list" where
  "collect seen [] = []"
| "collect seen (doc # docs) =
     (case bears_url doc of
        None \<Rightarrow> collect seen docs
      | Some u \<Rightarrow>
          if u \<in> seen then collect seen docs
          else \<lparr>url = u, title = dict_get (metadata doc) ''title'' ''No Title''\<rparr>
                 # collect (insert u seen) docs)"

text \<open>
  The passage that the specification prescribes for a record with the optional string
  fields title, h1, text, url and content\_hash.
\<close>

definition expected_passage ::
  "string option \<Rightarrow> string option \<Rightarrow> string option \<Rightarrow> string option \<Rightarrow> string option
     \<Rightarrow> pyval document" where
  "expected_passage title_field h1_field text_field url_field content_hash =
     \<lparr>page_content =
        ''Page Title: '' @ (case title_field of None \<Rightarrow> ''N/A'' | Some t \<Rightarrow> t) @ [CHR 0x0A]
        @ ''H1 Header: '' @ (case h1_field of None \<Rightarrow> ''N/A'' | Some h \<Rightarrow> h)
        @ [CHR 0x0A, CHR 0x0A]
        @ (case text_field of None \<Rightarrow> [] | Some b \<Rightarrow> b),
      metadata =
        [(''source'', PStr (case url_field of None \<Rightarrow> [] | Some u \<Rightarrow> u)),
         (''title'', PStr (case title_field of None \<Rightarrow> ''No Title'' | Some t \<Rightarrow> t)),
         (''content_hash'', PStr (case content_hash of None \<Rightarrow> [] | Some h \<Rightarrow> h))]\<rparr>"

section \<open>Example inputs\<close>

text \<open>
  Five retrieved passages: a url, an empty url, a missing url, a second url without a
  title, and the first url again under another title.
\<close>

definition demo_docs :: "string document list" where
  "demo_docs =
     [\<lparr>page_content = ''alpha'', metadata = [(''source'', ''https://u/a''), (''title'', ''A'')]\<rparr>,
      \<lparr>page_content = ''beta'', metadata = [(''source'', []), (''title'', ''E'')]\<rparr>,
      \<lparr>page_content = ''gamma'', metadata = [(''title'', ''M'')]\<rparr>,
      \<lparr>page_content = ''delta'', metadata = [(''source'', ''https://u/b'')]\<rparr>,
      \<lparr>page_content = ''epsilon'',
        metadata = [(''source'', ''https://u/a''), (''title'', ''A-dup'')]\<rparr>]"

text \<open>
  Services whose world is a counter of the calls made: the retriever finds nothing for
  the query \<open>nothing\<close> and the five passages otherwise; the model's text depends on the
  counter.
\<close>

definition demo_services :: "nat services" where
  "demo_services =
     \<lparr>retriever = (\<lambda>q w. (if q = ''nothing'' then Inr [] else Inr demo_docs, Suc w)),
      llm = (\<lambda>p w. (Inr (''generated '' @ digits w), Suc w))\<rparr>"

definition s0 :: "nat state" where
  "s0 = \<lparr>world = 0, calls = []\<rparr>"

definition s5 :: "nat state" where
  "s5 = \<lparr>world = 5, calls = [Retrieve ''earlier'']\<rparr>"

text \<open>
  Services that fail: the retriever on its first call (\<open>fail_at = 0\<close>), on its second
  call (\<open>1\<close>), or the model (\<open>2\<close>).
\<close>

definition failing_services :: "nat \<Rightarrow> nat services" where
  "failing_services fail_at =
     \<lparr>retriever = (\<lambda>q w. (if w = fail_at then Inl (Exn (OtherError ''ConnectionError'') ''index down'')
                            else Inr demo_docs, Suc w)),
      llm = (\<lambda>p w. (if w = fail_at then Inl (Exn (OtherError ''APIError'') ''model down'')
                      else Inr ''generated'', Suc w))\<rparr>"

text \<open>
  Three lines and \<^verbatim>\<open>json.loads\<close> on the lines of the examples: a record, a line that
  is not JSON, a JSON array.
\<close>

definition line_record :: string where
  \<open>line_record = ''{"title": "A", "text": "body", "url": "https://u/a"}'' @ NL\<close>

definition line_garbage :: string where
  "line_garbage = ''not json'' @ NL"

definition line_array :: string where
  "line_array = ''[1]'' @ NL"

definition demo_json_loads :: "string \<Rightarrow> string + pyval" where
  "demo_json_loads line =
     (if line = line_record
      then Inr (PDict [(''title'', PStr ''A''), (''text'', PStr ''body''),
                       (''url'', PStr ''https://u/a'')])
      else if line = line_array then Inr (PList [PInt 1])
      else Inl ''Expecting value: line 1 column 1 (char 0)'')"

text \<open>
  A directory with two files. A path below one of the files does not exist, and
  \<^verbatim>\<open>open\<close> raises \<^verbatim>\<open>NotADirectoryError\<close> for it, a subclass of \<^verbatim>\<open>OSError\<close>
  that is not \<^verbatim>\<open>FileNotFoundError\<close>; for any other name it raises
  \<^verbatim>\<open>FileNotFoundError\<close>.
\<close>

definition demo_open :: "string \<Rightarrow> exn + string list" where
  "demo_open file_path =
     (if file_path = ''two.jsonl'' then Inr [line_record, line_garbage]
      else if file_path = ''three.jsonl'' then Inr [line_record, line_array, line_record]
      else if file_path = ''two.jsonl/part.jsonl''
      then Inl (Exn (OtherError ''NotADirectoryError'')
                  (''[Errno 20] Not a directory: '' @ SQ @ file_path @ SQ))
      else Inl (Exn FileNotFoundError
                  (''[Errno 2] No such file or directory: '' @ SQ @ file_path @ SQ)))"

section \<open>Sources\<close>

lemma format_sources_loop_collect:
  "format_sources_loop docs acc seen = acc @ collect seen docs"
  by (induction docs arbitrary: acc seen)
     (auto simp: bears_url_def split: option.splits)

lemma format_sources_collect: "format_sources docs = collect {} docs"
  by (simp add: format_sources_def format_sources_loop_collect)

lemma remdups_snoc:
  "remdups (ys @ [x]) = remdups (filter (\<lambda>y. y \<noteq> x) ys) @ [x]"
  by (induction ys) auto

lemma first_occurrence_Cons:
  "rev (remdups (rev (x # xs))) = x # rev (remdups (rev (filter (\<lambda>y. y \<noteq> x) xs)))"
  by (simp add: remdups_snoc rev_filter)

lemma collect_urls:
  "map url (collect seen docs) =
     rev (remdups (rev (filter (\<lambda>u. u \<notin> seen) (List.map_filter bears_url docs))))"
proof (induction docs arbitrary: seen)
  case Nil
  show ?case by simp
next
  case (Cons doc docs)
  show ?case
  proof (cases "bears_url doc")
    case None
    then show ?thesis using Cons.IH [of seen] by simp
  next
    case (Some u)
    show ?thesis
    proof (cases "u \<in> seen")
      case True
      then show ?thesis using Some Cons.IH [of seen] by simp
    next
      case False
      have eq: "filter (\<lambda>y. y \<noteq> u) (filter (\<lambda>u. u \<notin> seen) us)
                  = filter (\<lambda>y. y \<notin> insert u seen) us" for us :: "string list"
        by (induction us) auto
      from False Some show ?thesis
        using Cons.IH [of "insert u seen"] eq [of "List.map_filter bears_url docs"]
        by (simp add: first_occurrence_Cons del: rev.simps filter_filter)
    qed
  qed
qed

lemma set_bears_url:
  "set (List.map_filter bears_url docs) =
     {u. u \<noteq> [] \<and> (\<exists>doc \<in> set docs. map_of (metadata doc) ''source'' = Some u)}"
  by (induction docs) (auto simp: bears_url_def split: option.splits if_splits)

lemma collect_not_seen: "src \<in> set (collect seen docs) \<Longrightarrow> url src \<notin> seen"
  by (induction docs arbitrary: seen) (auto split: option.splits if_splits)

lemma collect_nonempty_url: "src \<in> set (collect seen docs) \<Longrightarrow> url src \<noteq> []"
  by (induction docs arbitrary: seen)
     (auto simp: bears_url_def split: option.splits if_splits)

lemma collect_title:
  "src \<in> set (collect seen docs) \<Longrightarrow>
   \<exists>doc. find (\<lambda>d. map_of (metadata d) ''source'' = Some (url src)) docs = Some doc
        \<and> title src = dict_get (metadata doc) ''title'' ''No Title''"
proof (induction docs arbitrary: seen)
  case Nil
  then show ?case by simp
next
  case (Cons doc docs)
  show ?case
  proof (cases "bears_url doc")
    case None
    with Cons.prems have mem: "src \<in> set (collect seen docs)" by simp
    have "url src \<noteq> []" using mem by (rule collect_nonempty_url)
    with None have "map_of (metadata doc) ''source'' \<noteq> Some (url src)"
      by (auto simp: bears_url_def split: option.splits if_splits)
    with Cons.IH [OF mem] show ?thesis by simp
  next
    case (Some u)
    then have src_u: "map_of (metadata doc) ''source'' = Some u"
      by (auto simp: bears_url_def split: option.splits if_splits)
    show ?thesis
    proof (cases "u \<in> seen")
      case True
      with Some Cons.prems have mem: "src \<in> set (collect seen docs)" by simp
      from collect_not_seen [OF mem] True have "url src \<noteq> u" by auto
      with src_u Cons.IH [OF mem] show ?thesis by simp
    next
      case False
      with Some Cons.prems
      have "src = \<lparr>url = u, title = dict_get (metadata doc) ''title'' ''No Title''\<rparr>
            \<or> src \<in> set (collect (insert u seen) docs)" by simp
      then show ?thesis
      proof
        assume "src = \<lparr>url = u, title = dict_get (metadata doc) ''title'' ''No Title''\<rparr>"
        with src_u show ?thesis by simp
      next
        assume mem: "src \<in> set (collect (insert u seen) docs)"
        from collect_not_seen [OF mem] have "url src \<noteq> u" by auto
        with src_u Cons.IH [OF mem] show ?thesis by simp
      qed
    qed
  qed
qed

lemma answer_sources:
  assumes "fst (retriever sv q (world s)) = Inr docs"
    and "fst (answer sv q lang s) = Inr res"
  shows "res_sources res = format_sources docs"
  using assms
  by (cases "retriever sv q (world s)")
     (auto simp: answer_def retriever_invoke_def format_sources_def
           split: if_splits prod.splits sum.splits)

text \<open>
  C1. When the retriever returns the passages \<open>docs\<close>, not empty, and \<open>answer\<close>
  returns a result, the urls of its sources are pairwise distinct; they are the non-empty
  urls of the passages in the order of their first occurrence; a passage whose url is
  missing or empty adds no entry; and the title recorded for a url is the title of the
  first passage bearing that url (\<open>No Title\<close> when that passage has none), whatever
  titles later passages with the same url carry.
\<close>

theorem sources_unique_in_first_occurrence_order:
  assumes "fst (retriever sv q (world s)) = Inr docs"
    and "docs \<noteq> []"
    and "fst (answer sv q lang s) = Inr res"
  shows "distinct (map url (res_sources res))
       \<and> map url (res_sources res) = rev (remdups (rev (List.map_filter bears_url docs)))
       \<and> set (map url (res_sources res)) =
           {u. u \<noteq> [] \<and> (\<exists>doc \<in> set docs. map_of (metadata doc) ''source'' = Some u)}
       \<and> (\<forall>src \<in> set (res_sources res).
            \<exists>doc. find (\<lambda>d. map_of (metadata d) ''source'' = Some (url src)) docs = Some doc
                \<and> title src = dict_get (metadata doc) ''title'' ''No Title'')"
proof -
  have srcs: "res_sources res = collect {} docs"
    using answer_sources [OF assms(1,3)] by (simp add: format_sources_collect)
  have urls: "map url (res_sources res) = rev (remdups (rev (List.map_filter bears_url docs)))"
    using collect_urls [of "{}" docs] by (simp add: srcs)
  have sets: "set (map url (res_sources res)) =
          {u. u \<noteq> [] \<and> (\<exists>doc \<in> set docs. map_of (metadata doc) ''source'' = Some u)}"
    using set_bears_url [of docs] by (simp add: urls)
  have "distinct (map url (res_sources res))"
    by (simp only: urls distinct_rev distinct_remdups)
  moreover have "\<forall>src \<in> set (res_sources res).
            \<exists>doc. find (\<lambda>d. map_of (metadata d) ''source'' = Some (url src)) docs = Some doc
                \<and> title src = dict_get (metadata doc) ''title'' ''No Title''"
    using collect_title [of _ "{}" docs] by (simp add: srcs)
  ultimately show ?thesis using urls sets by blast
qed

lemma demo_retrieval: "fst (retriever demo_services ''abc'' (world s0)) = Inr demo_docs"
  by (simp add: demo_services_def s0_def)

lemma demo_answer:
  "fst (answer demo_services ''abc'' ''Polish'' s0) =
     Inr \<lparr>res_answer = ''generated 2'',
          res_sources = [\<lparr>url = ''https://u/a'', title = ''A''\<rparr>,
                         \<lparr>url = ''https://u/b'', title = ''No Title''\<rparr>]\<rparr>"
  by code_simp

theorem sources_unique_in_first_occurrence_order_witness:
  "fst (retriever demo_services ''abc'' (world s0)) = Inr demo_docs
   \<and> demo_docs \<noteq> []
   \<and> fst (answer demo_services ''abc'' ''Polish'' s0) =
       Inr \<lparr>res_answer = ''generated 2'',
            res_sources = [\<lparr>url = ''https://u/a'', title = ''A''\<rparr>,
                           \<lparr>url = ''https://u/b'', title = ''No Title''\<rparr>]\<rparr>
   \<and> distinct [''https://u/a'', ''https://u/b'']
   \<and> [''https://u/a'', ''https://u/b''] = rev (remdups (rev (List.map_filter bears_url demo_docs)))"
proof -
  have ne: "demo_docs \<noteq> []" by (simp add: demo_docs_def)
  from sources_unique_in_first_occurrence_order [OF demo_retrieval ne demo_answer]
  show ?thesis using demo_retrieval ne demo_answer by simp
qed

section \<open>No passage found\<close>

text \<open>
  C2. When the retriever returns no passage, \<open>answer\<close> returns exactly the fixed
  sentence and an empty list of sources, whatever the question and the language.
\<close>

theorem answer_not_found:
  assumes "fst (retriever sv q (world s)) = Inr []"
  shows "fst (answer sv q lang s) =
           Inr \<lparr>res_answer =
                  ''Unfortunately, I could not find any relevant information in my knowledge base.'',
                res_sources = []\<rparr>"
  using assms by (cases "retriever sv q (world s)") (simp add: answer_def retriever_invoke_def)

theorem answer_not_found_witness:
  "fst (retriever demo_services ''nothing'' (world s0)) = Inr []
   \<and> fst (answer demo_services ''nothing'' ''English'' s0) =
       Inr \<lparr>res_answer =
              ''Unfortunately, I could not find any relevant information in my knowledge base.'',
            res_sources = []\<rparr>"
  using answer_not_found [of demo_services "''nothing''" s0 "''English''"]
  by (simp add: demo_services_def s0_def)

text \<open>
  C10. When the retriever returns no passage, the only call that \<open>answer\<close> makes is
  that one retrieval: the state it leaves is the state after the retrieval, and no
  generation is recorded.
\<close>

theorem not_found_without_generation:
  assumes "retriever sv q (world s) = (Inr [], w)"
  shows "snd (answer sv q lang s) = \<lparr>world = w, calls = calls s @ [Retrieve q]\<rparr>"
  using assms by (simp add: answer_def retriever_invoke_def)

theorem not_found_without_generation_witness:
  "retriever demo_services ''nothing'' (world s0) = (Inr [], 1)
   \<and> snd (answer demo_services ''nothing'' ''Polish'' s0)
       = \<lparr>world = 1, calls = [Retrieve ''nothing'']\<rparr>"
  using not_found_without_generation [of demo_services "''nothing''" s0 1 "''Polish''"]
  by (simp add: demo_services_def s0_def)

section \<open>The chain\<close>

lemma prompt_format_template:
  "prompt_format RAG_PROMPT_TEMPLATE [(''context'', PStr c), (''question'', qv), (''language'', lv)]
     = Inr (filled_template (py_str lv) c (py_str qv))"
  by (simp add: RAG_PROMPT_TEMPLATE_def filled_template_def py_str_def)

lemma chain_invoke_steps:
  assumes "retriever sv q w1 = (Inr docs2, w2)"
  shows "chain_invoke sv [(''question'', q), (''language'', lang)] \<lparr>world = w1, calls = cs\<rparr> =
           (fst (llm sv (filled_template (input_text q lang) (format_context docs2) (input_text q lang)) w2),
            \<lparr>world = snd (llm sv (filled_template (input_text q lang) (format_context docs2) (input_text q lang)) w2),
             calls = cs @ [Retrieve q, Generate (filled_template (input_text q lang) (format_context docs2) (input_text q lang))]\<rparr>)"
  using assms
  by (simp add: chain_invoke_def parallel_def retrieval_chain_def retriever_invoke_def
        llm_invoke_def prompt_format_template as_pyval_def input_text_def split: prod.splits)

lemma chain_invoke_retriever_fails:
  assumes "retriever sv q w1 = (Inl e, w2)"
  shows "chain_invoke sv [(''question'', q), (''language'', lang)] \<lparr>world = w1, calls = cs\<rparr> =
           (Inl e, \<lparr>world = w2, calls = cs @ [Retrieve q]\<rparr>)"
  using assms
  by (simp add: chain_invoke_def parallel_def retrieval_chain_def retriever_invoke_def)

lemma answer_steps:
  assumes "retriever sv q (world s) = (Inr docs, w1)" and "docs \<noteq> []"
    and "retriever sv q w1 = (Inr docs2, w2)"
    and "llm sv (filled_template (input_text q lang) (format_context docs2) (input_text q lang)) w2 = (r, w3)"
  shows "answer sv q lang s =
           (case r of Inl e \<Rightarrow> Inl e
            | Inr generated \<Rightarrow> Inr \<lparr>res_answer = generated, res_sources = format_sources docs\<rparr>,
            \<lparr>world = w3,
             calls = calls s @ [Retrieve q, Retrieve q,
                       Generate (filled_template (input_text q lang) (format_context docs2) (input_text q lang))]\<rparr>)"
  using assms
  by (simp add: answer_def retriever_invoke_def chain_invoke_steps split: sum.splits)

section \<open>The prompt\<close>

text \<open>
  C3. The request with the question \<open>abc\<close> and the language \<open>Polish\<close>, for which
  the retriever returns passages: the prompt sent to the model has the text of the whole
  input dictionary in the language slot and in the question slot, not the language and
  the question. Both \<^verbatim>\<open>RunnablePassthrough()\<close> branches return the input of the chain.
\<close>

theorem prompt_slots_hold_the_input_dictionary:
  "calls (snd (answer demo_services ''abc'' ''Polish'' s0)) =
     [Retrieve ''abc'', Retrieve ''abc'',
      Generate (filled_template ''{'question': 'abc', 'language': 'Polish'}''
                  (format_context demo_docs)
                  ''{'question': 'abc', 'language': 'Polish'}'')]
   \<and> filled_template ''{'question': 'abc', 'language': 'Polish'}''
         (format_context demo_docs) ''{'question': 'abc', 'language': 'Polish'}''
       \<noteq> filled_template ''Polish'' (format_context demo_docs) ''abc''"
proof -
  have dict_text: "input_text ''abc'' ''Polish'' = ''{'question': 'abc', 'language': 'Polish'}''"
    by code_simp
  have r1: "retriever demo_services ''abc'' (world s0) = (Inr demo_docs, 1)"
    by (simp add: demo_services_def s0_def)
  have r2: "retriever demo_services ''abc'' 1 = (Inr demo_docs, 2)"
    by (simp add: demo_services_def)
  have ne: "demo_docs \<noteq> []" by (simp add: demo_docs_def)
  have g: "llm demo_services (filled_template (input_text ''abc'' ''Polish'') (format_context demo_docs) (input_text ''abc'' ''Polish'')) 2
             = (Inr (''generated '' @ digits 2), 3)"
    by (simp add: demo_services_def)
  have sent: "calls (snd (answer demo_services ''abc'' ''Polish'' s0)) =
     [Retrieve ''abc'', Retrieve ''abc'',
      Generate (filled_template (input_text ''abc'' ''Polish'') (format_context demo_docs) (input_text ''abc'' ''Polish''))]"
    using answer_steps [OF r1 ne r2 g] by (simp add: s0_def)
  have differs: "filled_template ''{'question': 'abc', 'language': 'Polish'}''
         (format_context demo_docs) ''{'question': 'abc', 'language': 'Polish'}''
       \<noteq> filled_template ''Polish'' (format_context demo_docs) ''abc''"
    by (simp add: filled_template_def RAG_PROMPT_TEMPLATE_def py_str_def)
  show ?thesis by (rule conjI [OF sent [unfolded dict_text] differs])
qed

section \<open>The context\<close>

text \<open>
  C4. The retriever of the specification reads an index that no request changes: its
  result for the question does not depend on the state. When that result is the
  passages \<open>docs\<close>, not empty, the prompt sent to the model has as its context the
  texts of \<open>docs\<close>, in retrieval order, joined by two newlines, three hyphens and
  two newlines, and the sources of the result are collected from the same \<open>docs\<close>.
  (\<open>answer\<close> retrieves for the sources and the chain retrieves again for the
  context; both retrievals return \<open>docs\<close>.)
\<close>

theorem context_joins_the_retrieved_passages:
  assumes "\<forall>w. fst (retriever sv q w) = Inr docs"
    and "docs \<noteq> []"
  shows "calls (snd (answer sv q lang s)) =
           calls s @ [Retrieve q, Retrieve q,
             Generate (filled_template (input_text q lang)
                         (str_join [CHR 0x0A, CHR 0x0A, CHR ''-'', CHR ''-'', CHR ''-'', CHR 0x0A, CHR 0x0A]
                            (map page_content docs))
                         (input_text q lang))]
       \<and> (fst (answer sv q lang s) = Inr res \<longrightarrow> res_sources res = format_sources docs)"
proof -
  obtain w1 where r1: "retriever sv q (world s) = (Inr docs, w1)"
    using assms(1) by (metis prod.collapse)
  obtain w2 where r2: "retriever sv q w1 = (Inr docs, w2)"
    using assms(1) by (metis prod.collapse)
  obtain r w3
    where g: "llm sv (filled_template (input_text q lang) (format_context docs) (input_text q lang)) w2
                = (r, w3)"
    by (cases "llm sv (filled_template (input_text q lang) (format_context docs) (input_text q lang)) w2")
  have run: "answer sv q lang s =
           (case r of Inl e \<Rightarrow> Inl e
            | Inr generated \<Rightarrow> Inr \<lparr>res_answer = generated, res_sources = format_sources docs\<rparr>,
            \<lparr>world = w3,
             calls = calls s @ [Retrieve q, Retrieve q,
                       Generate (filled_template (input_text q lang) (format_context docs) (input_text q lang))]\<rparr>)"
    using r1 assms(2) r2 g by (rule answer_steps)
  have sep: "format_context docs =
               str_join [CHR 0x0A, CHR 0x0A, CHR ''-'', CHR ''-'', CHR ''-'', CHR 0x0A, CHR 0x0A]
                 (map page_content docs)"
    by (simp add: format_context_def NL_def)
  show ?thesis
    by (cases r) (auto simp: run sep)
qed

theorem context_joins_the_retrieved_passages_witness:
  "(\<forall>w. fst (retriever demo_services ''abc'' w) = Inr demo_docs)
   \<and> demo_docs \<noteq> []
   \<and> map page_content demo_docs = [''alpha'', ''beta'', ''gamma'', ''delta'', ''epsilon'']
   \<and> calls (snd (answer demo_services ''abc'' ''Polish'' s0)) =
        [Retrieve ''abc'', Retrieve ''abc'',
         Generate (filled_template (input_text ''abc'' ''Polish'')
                     (''alpha'' @ NL @ NL @ ''---'' @ NL @ NL
                      @ ''beta'' @ NL @ NL @ ''---'' @ NL @ NL
                      @ ''gamma'' @ NL @ NL @ ''---'' @ NL @ NL
                      @ ''delta'' @ NL @ NL @ ''---'' @ NL @ NL
                      @ ''epsilon'')
                     (input_text ''abc'' ''Polish''))]
   \<and> fst (answer demo_services ''abc'' ''Polish'' s0) =
       Inr \<lparr>res_answer = ''generated 2'',
            res_sources = [\<lparr>url = ''https://u/a'', title = ''A''\<rparr>,
                           \<lparr>url = ''https://u/b'', title = ''No Title''\<rparr>]\<rparr>
   \<and> format_sources demo_docs =
       [\<lparr>url = ''https://u/a'', title = ''A''\<rparr>, \<lparr>url = ''https://u/b'', title = ''No Title''\<rparr>]"
proof -
  have det: "\<forall>w. fst (retriever demo_services ''abc'' w) = Inr demo_docs"
    by (simp add: demo_services_def)
  have ne: "demo_docs \<noteq> []" by (simp add: demo_docs_def)
  have texts: "map page_content demo_docs = [''alpha'', ''beta'', ''gamma'', ''delta'', ''epsilon'']"
    by (simp add: demo_docs_def)
  from context_joins_the_retrieved_passages [OF det ne, of "''Polish''" s0
         "\<lparr>res_answer = ''generated 2'',
            res_sources = [\<lparr>url = ''https://u/a'', title = ''A''\<rparr>,
                           \<lparr>url = ''https://u/b'', title = ''No Title''\<rparr>]\<rparr>"]
  show ?thesis using det ne texts demo_answer by (simp add: s0_def NL_def)
qed

section \<open>Failures\<close>

lemma ask_raises:
  assumes "fst (answer sv q lang s) = Inl e"
  shows "fst (ask sv \<lparr>req_question = q, req_language = lang\<rparr> s) =
           Inl (HTTPException 500
                  (''An internal error occurred while processing the request: '' @ str_of e))"
  using assms by (cases "answer sv q lang s") (simp add: ask_def)

text \<open>
  C8. An exception raised by the retriever, at the retrieval of \<open>answer\<close> or at the
  retrieval of the chain, or by the model, is the outcome of \<open>answer\<close>: nothing
  catches it there. The handler \<open>ask\<close> then raises the HTTP exception with status 500
  whose detail ends with the message of the exception.
\<close>

theorem failures_propagate_to_http_500:
  assumes "retriever sv q (world s) = (Inl e, w)
         \<or> (\<exists>docs w1. retriever sv q (world s) = (Inr docs, w1) \<and> docs \<noteq> [] \<and>
              (retriever sv q w1 = (Inl e, w)
               \<or> (\<exists>docs2 w2. retriever sv q w1 = (Inr docs2, w2)
                     \<and> llm sv (filled_template (input_text q lang) (format_context docs2)
                                 (input_text q lang)) w2 = (Inl e, w))))"
  shows "fst (answer sv q lang s) = Inl e
       \<and> world (snd (answer sv q lang s)) = w
       \<and> ask sv \<lparr>req_question = q, req_language = lang\<rparr> s =
           (Inl (HTTPException 500
                   (''An internal error occurred while processing the request: '' @ str_of e)),
            snd (answer sv q lang s))"
proof -
  have run: "fst (answer sv q lang s) = Inl e \<and> world (snd (answer sv q lang s)) = w"
    using assms
  proof (elim disjE exE conjE)
    assume "retriever sv q (world s) = (Inl e, w)"
    then show ?thesis by (simp add: answer_def retriever_invoke_def)
  next
    fix docs w1
    assume "retriever sv q (world s) = (Inr docs, w1)" "docs \<noteq> []" "retriever sv q w1 = (Inl e, w)"
    then show ?thesis
      by (simp add: answer_def retriever_invoke_def chain_invoke_retriever_fails)
  next
    fix docs w1 docs2 w2
    assume r1: "retriever sv q (world s) = (Inr docs, w1)" and ne: "docs \<noteq> []"
      and r2: "retriever sv q w1 = (Inr docs2, w2)"
      and g: "llm sv (filled_template (input_text q lang) (format_context docs2)
                                 (input_text q lang)) w2 = (Inl e, w)"
    from answer_steps [OF r1 ne r2 g] show ?thesis by simp
  qed
  then show ?thesis
    by (cases "answer sv q lang s") (simp add: ask_def)
qed

theorem failures_propagate_to_http_500_witness:
  "retriever (failing_services 0) ''abc'' (world s0) = (Inl (Exn (OtherError ''ConnectionError'') ''index down''), 1)
   \<and> fst (ask (failing_services 0) \<lparr>req_question = ''abc'', req_language = ''Polish''\<rparr> s0) =
        Inl (HTTPException 500 ''An internal error occurred while processing the request: index down'')
   \<and> retriever (failing_services 1) ''abc'' (world s0) = (Inr demo_docs, 1)
   \<and> retriever (failing_services 1) ''abc'' 1 = (Inl (Exn (OtherError ''ConnectionError'') ''index down''), 2)
   \<and> fst (ask (failing_services 1) \<lparr>req_question = ''abc'', req_language = ''Polish''\<rparr> s0) =
        Inl (HTTPException 500 ''An internal error occurred while processing the request: index down'')
   \<and> retriever (failing_services 2) ''abc'' 1 = (Inr demo_docs, 2)
   \<and> llm (failing_services 2) (filled_template (input_text ''abc'' ''Polish'') (format_context demo_docs)
                                 (input_text ''abc'' ''Polish'')) 2 = (Inl (Exn (OtherError ''APIError'') ''model down''), 3)
   \<and> fst (ask (failing_services 2) \<lparr>req_question = ''abc'', req_language = ''Polish''\<rparr> s0) =
        Inl (HTTPException 500 ''An internal error occurred while processing the request: model down'')"
proof -
  have ne: "demo_docs \<noteq> []" by (simp add: demo_docs_def)
  have a0: "retriever (failing_services 0) ''abc'' (world s0) = (Inl (Exn (OtherError ''ConnectionError'') ''index down''), 1)"
    by (simp add: failing_services_def s0_def)
  have a1: "retriever (failing_services 1) ''abc'' (world s0) = (Inr demo_docs, 1)"
    by (simp add: failing_services_def s0_def)
  have b1: "retriever (failing_services 1) ''abc'' 1 = (Inl (Exn (OtherError ''ConnectionError'') ''index down''), 2)"
    by (simp add: failing_services_def)
  have a2: "retriever (failing_services 2) ''abc'' (world s0) = (Inr demo_docs, 1)"
    by (simp add: failing_services_def s0_def)
  have b2: "retriever (failing_services 2) ''abc'' 1 = (Inr demo_docs, 2)"
    by (simp add: failing_services_def)
  have c2: "llm (failing_services 2) (filled_template (input_text ''abc'' ''Polish'') (format_context demo_docs)
                                 (input_text ''abc'' ''Polish'')) 2 = (Inl (Exn (OtherError ''APIError'') ''model down''), 3)"
    by (simp add: failing_services_def)
  have "fst (ask (failing_services 0) \<lparr>req_question = ''abc'', req_language = ''Polish''\<rparr> s0) =
        Inl (HTTPException 500 ''An internal error occurred while processing the request: index down'')"
    using failures_propagate_to_http_500 [of "failing_services 0" "''abc''" s0
            "Exn (OtherError ''ConnectionError'') ''index down''" 1 "''Polish''"] a0
    by simp
  moreover have "fst (ask (failing_services 1) \<lparr>req_question = ''abc'', req_language = ''Polish''\<rparr> s0) =
        Inl (HTTPException 500 ''An internal error occurred while processing the request: index down'')"
    using failures_propagate_to_http_500 [of "failing_services 1" "''abc''" s0
            "Exn (OtherError ''ConnectionError'') ''index down''" 2 "''Polish''"] a1 b1 ne
    by simp
  moreover have "fst (ask (failing_services 2) \<lparr>req_question = ''abc'', req_language = ''Polish''\<rparr> s0) =
        Inl (HTTPException 500 ''An internal error occurred while processing the request: model down'')"
    using failures_propagate_to_http_500 [of "failing_services 2" "''abc''" s0
            "Exn (OtherError ''APIError'') ''model down''" 3 "''Polish''"] a2 b2 c2 ne
    by simp
  ultimately show ?thesis using a0 a1 b1 b2 c2 by simp
qed

section \<open>Repeated requests\<close>

text \<open>
  C9. When the result of the retriever for the question does not depend on the state of
  the world, two calls of \<open>answer\<close> with that question that return a result return
  the same sources, from whatever states they start. The generated answers may differ, as
  they do in the example.
\<close>

theorem sources_repeatable:
  assumes "\<forall>w. fst (retriever sv q w) = r"
    and "fst (answer sv q lang s1) = Inr res1"
    and "fst (answer sv q lang s2) = Inr res2"
  shows "res_sources res1 = res_sources res2"
proof (cases r)
  case (Inl e)
  with assms(1) have "fst (retriever sv q (world s1)) = Inl e" by simp
  then have "fst (answer sv q lang s1) = Inl e"
    by (cases "retriever sv q (world s1)") (simp add: answer_def retriever_invoke_def)
  with assms(2) show ?thesis by simp
next
  case (Inr docs)
  with assms(1) have "fst (retriever sv q (world s1)) = Inr docs"
    and "fst (retriever sv q (world s2)) = Inr docs" by simp_all
  then show ?thesis
    using answer_sources [of sv q s1 docs lang res1] answer_sources [of sv q s2 docs lang res2] assms(2,3)
    by simp
qed

theorem sources_repeatable_witness:
  "(\<forall>w. fst (retriever demo_services ''abc'' w) = Inr demo_docs)
   \<and> fst (answer demo_services ''abc'' ''Polish'' s0) =
       Inr \<lparr>res_answer = ''generated 2'',
            res_sources = [\<lparr>url = ''https://u/a'', title = ''A''\<rparr>,
                           \<lparr>url = ''https://u/b'', title = ''No Title''\<rparr>]\<rparr>
   \<and> fst (answer demo_services ''abc'' ''Polish'' s5) =
       Inr \<lparr>res_answer = ''generated 7'',
            res_sources = [\<lparr>url = ''https://u/a'', title = ''A''\<rparr>,
                           \<lparr>url = ''https://u/b'', title = ''No Title''\<rparr>]\<rparr>"
proof -
  have det: "\<forall>w. fst (retriever demo_services ''abc'' w) = Inr demo_docs"
    by (simp add: demo_services_def)
  have run5: "fst (answer demo_services ''abc'' ''Polish'' s5) =
       Inr \<lparr>res_answer = ''generated 7'', res_sources = format_sources demo_docs\<rparr>"
    using answer_steps [of demo_services "''abc''" s5 demo_docs 6 demo_docs 7 "''Polish''" "Inr ''generated 7''" 8]
    by (simp add: demo_services_def s5_def demo_docs_def)
  from sources_repeatable [OF det demo_answer run5]
  show ?thesis using det demo_answer run5 by simp
qed

section \<open>Preparing documents\<close>

lemma load_loop_keeps:
  "fst (load_loop jl path i lines docs lg) = Inr documents \<Longrightarrow> set docs \<subseteq> set documents"
proof (induction lines arbitrary: i docs lg)
  case Nil
  then show ?case by simp
next
  case (Cons line lines)
  show ?case
  proof (cases "prepare_line jl line")
    case (Inr doc)
    with Cons.prems have "fst (load_loop jl path (i + 1) lines (docs @ [doc]) lg) = Inr documents"
      by simp
    from Cons.IH [OF this] show ?thesis by simp
  next
    case (Inl e)
    with Cons.prems Cons.IH show ?thesis
      by (auto split: if_splits)
  qed
qed

lemma load_loop_emits:
  "fst (load_loop jl path i lines docs lg) = Inr documents \<Longrightarrow> line \<in> set lines \<Longrightarrow>
   prepare_line jl line = Inr doc \<Longrightarrow> doc \<in> set documents"
proof (induction lines arbitrary: i docs lg)
  case Nil
  then show ?case by simp
next
  case (Cons l lines)
  show ?case
  proof (cases "prepare_line jl l")
    case (Inr d)
    with Cons.prems(1)
    have run: "fst (load_loop jl path (i + 1) lines (docs @ [d]) lg) = Inr documents" by simp
    show ?thesis
    proof (cases "line = l")
      case True
      with Inr Cons.prems(3) have "doc = d" by simp
      with load_loop_keeps [OF run] show ?thesis by auto
    next
      case False
      with Cons.prems(2) have "line \<in> set lines" by simp
      from Cons.IH [OF run this Cons.prems(3)] show ?thesis .
    qed
  next
    case (Inl e)
    with Cons.prems(3) have "line \<noteq> l" by auto
    with Cons.prems(2) have mem: "line \<in> set lines" by simp
    from Inl Cons.prems(1) Cons.IH [OF _ mem Cons.prems(3)] show ?thesis
      by (auto split: if_splits)
  qed
qed

lemma prepare_line_error_class:
  "prepare_line jl line = Inl e \<Longrightarrow> class_of e = JSONDecodeError \<or> class_of e = AttributeError"
  by (auto simp: prepare_line_def split: sum.splits pyval.splits)

lemma load_loop_error_class:
  "fst (load_loop jl path i lines docs lg) = Inl e \<Longrightarrow> class_of e = AttributeError"
proof (induction lines arbitrary: i docs lg)
  case Nil
  then show ?case by simp
next
  case (Cons l lines)
  show ?case
  proof (cases "prepare_line jl l")
    case (Inr d)
    with Cons show ?thesis by simp
  next
    case (Inl e')
    with Cons prepare_line_error_class [OF Inl] show ?thesis
      by (auto split: if_splits)
  qed
qed

lemma islice_member:
  assumes "islice f start stop = Inr sel"
    and "start \<le> int k" and "k < length f"
    and "case stop of None \<Rightarrow> True | Some n \<Rightarrow> int k < n"
  shows "f ! k \<in> set sel"
proof -
  from assms(1) have nonneg: "0 \<le> start"
    by (auto simp: islice_def split: if_splits)
  define s where "s = nat start"
  with nonneg assms(2) have sk: "s \<le> k" by simp
  have at: "drop s f ! (k - s) = f ! k" using sk assms(3) by simp
  have len: "k - s < length (drop s f)" using sk assms(3) by simp
  show ?thesis
  proof (cases stop)
    case None
    with assms(1) have "sel = drop s f"
      by (auto simp: islice_def s_def split: if_splits)
    with at len show ?thesis by (metis nth_mem)
  next
    case (Some n)
    with assms(1) have sel: "sel = take (nat n - s) (drop s f)"
      by (auto simp: islice_def s_def split: if_splits)
    from Some assms(4) have "k < nat n" by simp
    with sk have "k - s < nat n - s" by simp
    with len have "k - s < length sel" and "sel ! (k - s) = drop s f ! (k - s)"
      by (simp_all add: sel)
    with at show ?thesis by (metis nth_mem)
  qed
qed

lemma prepare_line_record:
  assumes "json_loads line = Inr (PDict d)"
    and "map_of d ''title'' = map_option PStr title_field"
    and "map_of d ''h1'' = map_option PStr h1_field"
    and "map_of d ''text'' = map_option PStr text_field"
    and "map_of d ''url'' = map_option PStr url_field"
    and "map_of d ''content_hash'' = map_option PStr content_hash"
  shows "prepare_line json_loads line = Inr (expected_passage title_field h1_field text_field url_field content_hash)"
  using assms
  by (simp add: prepare_line_def expected_passage_def dict_get_def py_str_def NL_def
           split: option.splits)

text \<open>
  C6. For a line that holds a record (a JSON object whose fields title, h1, text, url
  and content\_hash are strings or missing) the body of the loop builds the passage of
  that record, and when the line is inside the range from \<open>start\<close> to \<open>stop\<close> and
  the load returns, the passage is among its documents. The passage has the text \<open>Page Title: title\<close>, newline, \<open>H1 Header: h1\<close>, two newlines and the
  body, \<open>N/A\<close> for a missing title or h1 and nothing for a missing body, and with
  the metadata source, title and content\_hash, where a missing url is the empty string,
  a missing title \<open>No Title\<close> and a missing hash the empty string.
\<close>

theorem record_is_prepared_as_specified:
  assumes "json_loads line = Inr (PDict d)"
    and "map_of d ''title'' = map_option PStr title_field"
    and "map_of d ''h1'' = map_option PStr h1_field"
    and "map_of d ''text'' = map_option PStr text_field"
    and "map_of d ''url'' = map_option PStr url_field"
    and "map_of d ''content_hash'' = map_option PStr content_hash"
  shows "prepare_line json_loads line =
           Inr (expected_passage title_field h1_field text_field url_field content_hash)
       \<and> (open_lines file_path = Inr f \<and> k < length f \<and> f ! k = line
            \<and> start \<le> int k \<and> (case stop of None \<Rightarrow> True | Some n \<Rightarrow> int k < n)
            \<and> fst (load_and_prepare_documents open_lines json_loads file_path start stop lg)
                  = Inr documents
          \<longrightarrow> expected_passage title_field h1_field text_field url_field content_hash \<in> set documents)"
proof (intro conjI impI)
  show body: "prepare_line json_loads line =
           Inr (expected_passage title_field h1_field text_field url_field content_hash)"
    using assms by (rule prepare_line_record)
  assume run: "open_lines file_path = Inr f \<and> k < length f \<and> f ! k = line
            \<and> start \<le> int k \<and> (case stop of None \<Rightarrow> True | Some n \<Rightarrow> int k < n)
            \<and> fst (load_and_prepare_documents open_lines json_loads file_path start stop lg)
                  = Inr documents"
  then have opened: "open_lines file_path = Inr f"
    and loaded: "fst (load_and_prepare_documents open_lines json_loads file_path start stop lg)
                  = Inr documents"
    by simp_all
  obtain sel where sel: "islice f start stop = Inr sel"
    using opened loaded
    by (cases "islice f start stop")
       (auto simp: load_and_prepare_documents_def Let_def islice_def split: if_splits)
  define lg1 where "lg1 = lg @ [(INFO, ''Loading documents from '' @ SQ @ file_path @ SQ
                          @ '' [lines '' @ str_int start @ ''-''
                          @ (case stop of None \<Rightarrow> ''end''
                             | Some n \<Rightarrow> if n = 0 then ''end'' else str_int n)
                          @ '']...'')]"
  have loop: "fst (load_loop json_loads file_path start sel [] lg1) = Inr documents"
  proof (cases "load_loop json_loads file_path start sel [] lg1")
    case (Pair r lg2)
    show ?thesis
    proof (cases r)
      case (Inl e)
      with Pair load_loop_error_class [of json_loads file_path start sel "[]" lg1 e]
      have "class_of e = AttributeError" by simp
      with Inl Pair opened loaded sel show ?thesis
        by (simp add: load_and_prepare_documents_def Let_def lg1_def)
    next
      case (Inr ds)
      with Pair opened loaded sel show ?thesis
        by (simp add: load_and_prepare_documents_def Let_def lg1_def)
    qed
  qed
  have "f ! k \<in> set sel"
    using run islice_member [OF sel, of k] by simp
  with run have mem: "line \<in> set sel" by simp
  from load_loop_emits [OF loop mem body]
  show "expected_passage title_field h1_field text_field url_field content_hash \<in> set documents" .
qed

lemma demo_load_two:
  "fst (load_and_prepare_documents demo_open demo_json_loads ''two.jsonl'' 0 None []) =
     Inr [\<lparr>page_content = ''Page Title: A'' @ [CHR 0x0A] @ ''H1 Header: N/A'' @ [CHR 0x0A, CHR 0x0A] @ ''body'',
           metadata = [(''source'', PStr ''https://u/a''), (''title'', PStr ''A''),
                       (''content_hash'', PStr [])]\<rparr>]"
  by code_simp

theorem record_is_prepared_as_specified_witness:
  "demo_json_loads line_record =
     Inr (PDict [(''title'', PStr ''A''), (''text'', PStr ''body''), (''url'', PStr ''https://u/a'')])
   \<and> prepare_line demo_json_loads line_record =
       Inr (expected_passage (Some ''A'') None (Some ''body'') (Some ''https://u/a'') None)
   \<and> demo_open ''two.jsonl'' = Inr [line_record, line_garbage]
   \<and> fst (load_and_prepare_documents demo_open demo_json_loads ''two.jsonl'' 0 None []) =
       Inr [\<lparr>page_content = ''Page Title: A'' @ [CHR 0x0A] @ ''H1 Header: N/A'' @ [CHR 0x0A, CHR 0x0A] @ ''body'',
             metadata = [(''source'', PStr ''https://u/a''), (''title'', PStr ''A''),
                         (''content_hash'', PStr [])]\<rparr>]
   \<and> expected_passage (Some ''A'') None (Some ''body'') (Some ''https://u/a'') None
       \<in> set [\<lparr>page_content = ''Page Title: A'' @ [CHR 0x0A] @ ''H1 Header: N/A'' @ [CHR 0x0A, CHR 0x0A] @ ''body'',
                 metadata = [(''source'', PStr ''https://u/a''), (''title'', PStr ''A''),
                             (''content_hash'', PStr [])]\<rparr>]"
proof -
  have f: "demo_open ''two.jsonl'' = Inr [line_record, line_garbage]"
    by (simp add: demo_open_def)
  have j: "demo_json_loads line_record =
       Inr (PDict [(''title'', PStr ''A''), (''text'', PStr ''body''), (''url'', PStr ''https://u/a'')])"
    by (simp add: demo_json_loads_def)
  from record_is_prepared_as_specified
         [where json_loads = demo_json_loads and line = line_record
            and d = "[(''title'', PStr ''A''), (''text'', PStr ''body''), (''url'', PStr ''https://u/a'')]"
            and title_field = "Some ''A''" and h1_field = None and text_field = "Some ''body''"
            and url_field = "Some ''https://u/a''" and content_hash = None
            and open_lines = demo_open and file_path = "''two.jsonl''"
            and f = "[line_record, line_garbage]" and k = 0 and start = 0 and stop = None
            and lg = "[]"
            and documents = "[\<lparr>page_content = ''Page Title: A'' @ [CHR 0x0A] @ ''H1 Header: N/A'' @ [CHR 0x0A, CHR 0x0A] @ ''body'',
                 metadata = [(''source'', PStr ''https://u/a''), (''title'', PStr ''A''),
                             (''content_hash'', PStr [])]\<rparr>]"]
  show ?thesis using f j demo_load_two by simp
qed

section \<open>A missing file\<close>

text \<open>
  C7, as the code has it. When \<^verbatim>\<open>open\<close> raises \<^verbatim>\<open>FileNotFoundError\<close>, the load
  returns the empty list, raises nothing, and its last log record is the error naming
  the path. This holds for every \<open>start\<close> and \<open>stop\<close>.
\<close>

theorem missing_file_gives_empty_list:
  assumes "open_lines file_path = Inl e" and "class_of e = FileNotFoundError"
  shows "fst (load_and_prepare_documents open_lines json_loads file_path start stop lg) = Inr []
       \<and> last (snd (load_and_prepare_documents open_lines json_loads file_path start stop lg)) =
           (ERROR, ''Data file not found at path: '' @ file_path)"
  using assms by (simp add: load_and_prepare_documents_def Let_def)

theorem missing_file_gives_empty_list_witness:
  "demo_open ''absent.jsonl'' =
     Inl (Exn FileNotFoundError (''[Errno 2] No such file or directory: '' @ SQ @ ''absent.jsonl'' @ SQ))
   \<and> class_of (Exn FileNotFoundError (''[Errno 2] No such file or directory: '' @ SQ @ ''absent.jsonl'' @ SQ))
       = FileNotFoundError
   \<and> fst (load_and_prepare_documents demo_open demo_json_loads ''absent.jsonl'' (- 3) (Some 7) []) = Inr []
   \<and> last (snd (load_and_prepare_documents demo_open demo_json_loads ''absent.jsonl'' (- 3) (Some 7) [])) =
       (ERROR, ''Data file not found at path: absent.jsonl'')"
proof -
  have f: "demo_open ''absent.jsonl'' =
     Inl (Exn FileNotFoundError (''[Errno 2] No such file or directory: '' @ SQ @ ''absent.jsonl'' @ SQ))"
    by (simp add: demo_open_def)
  from missing_file_gives_empty_list [of demo_open "''absent.jsonl''"
         "Exn FileNotFoundError (''[Errno 2] No such file or directory: '' @ SQ @ ''absent.jsonl'' @ SQ)"
         demo_json_loads "- 3" "Some 7" "[]"]
  show ?thesis using f by simp
qed

text \<open>
  C7, as stated, fails for a path that does not exist because it lies below a regular
  file: \<^verbatim>\<open>open\<close> raises \<^verbatim>\<open>NotADirectoryError\<close>, the handler of
  \<^verbatim>\<open>FileNotFoundError\<close> does not catch it, and the load raises it to the caller.
\<close>

theorem missing_path_below_a_file_raises:
  "demo_open ''two.jsonl/part.jsonl'' =
     Inl (Exn (OtherError ''NotADirectoryError'')
            (''[Errno 20] Not a directory: '' @ SQ @ ''two.jsonl/part.jsonl'' @ SQ))
   \<and> fst (load_and_prepare_documents demo_open demo_json_loads ''two.jsonl/part.jsonl'' 0 None []) =
       Inl (Exn (OtherError ''NotADirectoryError'')
              (''[Errno 20] Not a directory: '' @ SQ @ ''two.jsonl/part.jsonl'' @ SQ))
   \<and> fst (load_and_prepare_documents demo_open demo_json_loads ''two.jsonl/part.jsonl'' 0 None [])
       \<noteq> Inr []"
  by (simp add: load_and_prepare_documents_def Let_def demo_open_def)

section \<open>Lines that are not records\<close>

text \<open>A line that is not JSON is skipped with a warning, and the record before it is kept.\<close>

lemma malformed_line_is_skipped:
  assumes "open_lines file_path = Inr [l1, l2]"
    and "json_loads l1 = Inr (PDict d)" and "json_loads l2 = Inl msg"
  shows "\<exists>doc. load_and_prepare_documents open_lines json_loads file_path 0 None lg =
           (Inr [doc],
            lg @ [(INFO, ''Loading documents from '' @ SQ @ file_path @ SQ @ '' [lines 0-end]...''),
                  (WARNING, ''Skipping malformed JSON line 2 in '' @ SQ @ file_path @ SQ @ ''.''),
                  (INFO, ''Successfully loaded and prepared 1 documents.'')])"
  using assms
  by (simp add: load_and_prepare_documents_def Let_def islice_def prepare_line_def str_int_def)

text \<open>
  C5. A file of three lines, a record, the JSON array \<^verbatim>\<open>[1]\<close> and the record again:
  the array has no \<^verbatim>\<open>get\<close>, the \<^verbatim>\<open>AttributeError\<close> is caught by neither handler
  of the loop, and the load raises it; no document is returned.
\<close>

theorem array_line_aborts_the_load:
  "demo_open ''three.jsonl'' = Inr [line_record, line_array, line_record]
   \<and> demo_json_loads line_record =
       Inr (PDict [(''title'', PStr ''A''), (''text'', PStr ''body''), (''url'', PStr ''https://u/a'')])
   \<and> demo_json_loads line_array = Inr (PList [PInt 1])
   \<and> fst (load_and_prepare_documents demo_open demo_json_loads ''three.jsonl'' 0 None []) =
       Inl (Exn AttributeError (SQ @ ''list'' @ SQ @ '' object has no attribute '' @ SQ @ ''get'' @ SQ))"
  by code_simp

end
